theory Spec2Isabelle
  imports Main "HOL-Library.Word" "HOL-Library.Sublist"
begin

unbundle bit_operations_syntax

section \<open>JavaScript values used by the two entry points\<close>

text \<open>
  A JavaScript string is a sequence of UTF-16 code units; a Buffer is a sequence of bytes.
  String literals of the source that are plain ASCII are written with \<open>ascii\<close>; the Korean
  literals are given by their code units, with a translation beside them.
\<close>

type_synonym byte = "8 word"
type_synonym code_unit = "16 word"
type_synonym jsstring = "code_unit list"

definition ascii :: "string \<Rightarrow> jsstring" where
  "ascii s = map of_char s"

text \<open>
  Truthiness of a value that is either \<open>undefined\<close> or a string: \<open>undefined\<close> and the empty
  string are falsy, every other string is truthy.
\<close>

fun truthy :: "jsstring option \<Rightarrow> bool" where
  "truthy None = False"
| "truthy (Some s) = (s \<noteq> [])"

text \<open>\<open>a || d\<close> for such a value \<open>a\<close> and a string \<open>d\<close>.\<close>

definition or_else :: "jsstring option \<Rightarrow> jsstring \<Rightarrow> jsstring" where
  "or_else a d = (if truthy a then the a else d)"

subsection \<open>\<open>String.prototype.trim\<close>\<close>

text \<open>
  \<open>trim\<close> removes the code units of ECMAScript's WhiteSpace and LineTerminator productions
  from both ends: TAB, LF, VT, FF, CR, SPACE, NBSP, U+1680, U+2000 to U+200A, U+2028,
  U+2029, U+202F, U+205F, U+3000 and U+FEFF.
\<close>

definition isWhiteSpace :: "code_unit \<Rightarrow> bool" where
  "isWhiteSpace c \<longleftrightarrow>
     c = 0x09 \<or> c = 0x0A \<or> c = 0x0B \<or> c = 0x0C \<or> c = 0x0D \<or> c = 0x20 \<or> c = 0xA0 \<or>
     c = 0x1680 \<or> (0x2000 \<le> c \<and> c \<le> 0x200A) \<or> c = 0x2028 \<or> c = 0x2029 \<or>
     c = 0x202F \<or> c = 0x205F \<or> c = 0x3000 \<or> c = 0xFEFF"

definition trimStart :: "jsstring \<Rightarrow> jsstring" where
  "trimStart s = dropWhile isWhiteSpace s"

definition trimEnd :: "jsstring \<Rightarrow> jsstring" where
  "trimEnd s = rev (dropWhile isWhiteSpace (rev s))"

definition trim :: "jsstring \<Rightarrow> jsstring" where
  "trim s = trimEnd (trimStart s)"

subsection \<open>\<open>Buffer.prototype.toString('utf-8')\<close>\<close>

text \<open>
  Node decodes a buffer with the UTF-8 decoder of the Encoding Standard in replacement
  mode and without removing a byte order mark: a byte sequence that is not well formed
  does not make the call fail, each maximal ill-formed part becomes U+FFFD. The decoder is
  a state machine over the bytes; \<open>DecodeError\<close> is the decoder's error signal, which
  the replacement mode turns into U+FFFD.
\<close>

datatype token = CodePoint nat | DecodeError

record decoder_state =
  needed :: nat
  seen :: nat
  code_point :: nat
  lower :: byte
  upper :: byte

definition decoder_init :: decoder_state where
  "decoder_init = \<lparr>needed = 0, seen = 0, code_point = 0, lower = 0x80, upper = 0xBF\<rparr>"

text \<open>The decoder's step when no continuation byte is awaited.\<close>

definition lead_byte :: "byte \<Rightarrow> token list \<times> decoder_state" where
  "lead_byte b =
     (if b \<le> 0x7F then ([CodePoint (unat b)], decoder_init)
      else if 0xC2 \<le> b \<and> b \<le> 0xDF then
        ([], decoder_init\<lparr>needed := 1, code_point := unat (b AND 0x1F)\<rparr>)
      else if 0xE0 \<le> b \<and> b \<le> 0xEF then
        ([], decoder_init\<lparr>needed := 2, code_point := unat (b AND 0x0F),
                          lower := (if b = 0xE0 then 0xA0 else 0x80),
                          upper := (if b = 0xED then 0x9F else 0xBF)\<rparr>)
      else if 0xF0 \<le> b \<and> b \<le> 0xF4 then
        ([], decoder_init\<lparr>needed := 3, code_point := unat (b AND 0x07),
                          lower := (if b = 0xF0 then 0x90 else 0x80),
                          upper := (if b = 0xF4 then 0x8F else 0xBF)\<rparr>)
      else ([DecodeError], decoder_init))"

text \<open>
  One byte. A byte outside the awaited range ends the pending sequence with an error and
  is then read again as a leading byte.
\<close>

definition decoder_step :: "decoder_state \<Rightarrow> byte \<Rightarrow> token list \<times> decoder_state" where
  "decoder_step st b =
     (if needed st = 0 then lead_byte b
      else if \<not> (lower st \<le> b \<and> b \<le> upper st) then
        (case lead_byte b of (out, st') \<Rightarrow> (DecodeError # out, st'))
      else
        (let cp = code_point st * 64 + unat (b AND 0x3F) in
         if Suc (seen st) = needed st then ([CodePoint cp], decoder_init)
         else ([], st\<lparr>seen := Suc (seen st), code_point := cp, lower := 0x80, upper := 0xBF\<rparr>)))"

fun decoder_run :: "decoder_state \<Rightarrow> byte list \<Rightarrow> token list" where
  "decoder_run st [] = (if needed st = 0 then [] else [DecodeError])"
| "decoder_run st (b # bs) =
     (case decoder_step st b of (out, st') \<Rightarrow> out @ decoder_run st' bs)"

definition utf8_decode :: "byte list \<Rightarrow> token list" where
  "utf8_decode bs = decoder_run decoder_init bs"

text \<open>A byte sequence is valid UTF-8 when the decoder never signals an error on it.\<close>

definition valid_utf8 :: "byte list \<Rightarrow> bool" where
  "valid_utf8 bs \<longleftrightarrow> DecodeError \<notin> set (utf8_decode bs)"

text \<open>The code units of one code point: itself, or a surrogate pair above the BMP.\<close>

definition utf16_units :: "nat \<Rightarrow> jsstring" where
  "utf16_units cp =
     (if cp < 0x10000 then [of_nat cp]
      else [of_nat (0xD800 + (cp - 0x10000) div 0x400),
            of_nat (0xDC00 + (cp - 0x10000) mod 0x400)])"

fun token_units :: "token \<Rightarrow> jsstring" where
  "token_units (CodePoint cp) = utf16_units cp"
| "token_units DecodeError = [0xFFFD]"

definition toString_utf8 :: "byte list \<Rightarrow> jsstring" where
  "toString_utf8 bs = concat (map token_units (utf8_decode bs))"

section \<open>The HTTP entry point\<close>

subsection \<open>Requests, errors, responses\<close>

text \<open>
  A submission is the multipart form of \<open>POST /ask\<close>: the text fields \<open>question\<close> and
  \<open>model\<close> and the file part \<open>markdownFile\<close>, each of which may be missing. A text
  field that is present is a string. The size of an uploaded file is the length of its
  buffer. Forms that repeat a field or carry files under other names, and requests that
  are not multipart, are outside this model.
\<close>

record uploaded_file =
  originalname :: jsstring
  mimetype :: jsstring
  buffer :: "byte list"

record submission =
  question :: "jsstring option"
  markdownFile :: "uploaded_file option"
  model :: "jsstring option"

datatype multer_code = LIMIT_FILE_SIZE | LIMIT_UNEXPECTED_FILE

datatype js_error = MulterError multer_code | Error jsstring

text \<open>The \<open>message\<close> property; multer's messages are those of its table of error codes.\<close>

fun message :: "js_error \<Rightarrow> jsstring" where
  "message (MulterError LIMIT_FILE_SIZE) = ascii ''File too large''"
| "message (MulterError LIMIT_UNEXPECTED_FILE) = ascii ''Unexpected field''"
| "message (Error m) = m"

datatype json_body = Answer jsstring | ErrorBody jsstring

record response =
  status :: nat
  body :: json_body

subsection \<open>The completion provider\<close>

record chat_message =
  role :: jsstring
  content :: jsstring

record chat_request =
  request_model :: jsstring
  messages :: "chat_message list"

text \<open>
  What the provider sends back: every level that the source reads with \<open>?.\<close> may be
  missing.
\<close>

datatype choice_message = ChoiceMessage (message_content: "jsstring option")
datatype choice = Choice (choice_message: "choice_message option")
datatype completion = Completion (choices: "choice list option")

datatype provider_result = Resolved completion | Rejected js_error

text \<open>
  The provider is outside the program: a call may depend on, and change, the state \<open>'w\<close>
  of everything outside (the service, the network, the clock).
\<close>

type_synonym 'w provider = "chat_request \<Rightarrow> 'w \<Rightarrow> provider_result \<times> 'w"

text \<open>
  What one request leaves behind: the response sent, the provider calls made while it was
  handled, oldest first, and the outside state afterwards.
\<close>

record 'w outcome =
  reply :: response
  provider_calls :: "chat_request list"
  world :: 'w

subsection \<open>The upload middleware\<close>

definition fileSize :: nat where
  "fileSize = 100 * 1024 * 1024"

text \<open>
  Message of the file filter: "Only Markdown(.md) or Text(.txt) files can be uploaded."
\<close>

definition fileFilter_message :: jsstring where
  "fileFilter_message =
     ascii ''Markdown(.md) '' @ [0xB610, 0xB294] @ ascii '' Text(.txt) '' @
     [0xD30C, 0xC77C, 0xB9CC, 0x20, 0xC5C5, 0xB85C, 0xB4DC, 0x20, 0xAC00, 0xB2A5, 0xD569,
      0xB2C8, 0xB2E4, 0x2E]"

definition fileFilter :: "uploaded_file \<Rightarrow> js_error + bool" where
  "fileFilter file =
     (if mimetype file = ascii ''text/markdown'' \<or> mimetype file = ascii ''text/plain''
      then Inr True
      else Inl (Error fileFilter_message))"

text \<open>
  \<open>upload.single('markdownFile')\<close> with memory storage, by multer's documented contract:
  without a file part \<open>req.file\<close> stays undefined; otherwise the file filter is asked
  first, and an accepted file is read into memory unless it is longer than
  \<open>limits.fileSize\<close>, which is the error \<open>LIMIT_FILE_SIZE\<close>. An error goes to the
  error-handling middleware and the route handler does not run.
\<close>

definition upload_single :: "submission \<Rightarrow> js_error + uploaded_file option" where
  "upload_single sub =
     (case markdownFile sub of
        None \<Rightarrow> Inr None
      | Some file \<Rightarrow>
          (case fileFilter file of
             Inl err \<Rightarrow> Inl err
           | Inr accept \<Rightarrow>
               if \<not> accept then Inr None
               else if length (buffer file) > fileSize then Inl (MulterError LIMIT_FILE_SIZE)
               else Inr (Some file)))"

subsection \<open>The route handler\<close>

text \<open>"Please enter a question."\<close>

definition missing_question_message :: jsstring where
  "missing_question_message =
     [0xC9C8, 0xBB38, 0xC744, 0x20, 0xC785, 0xB825, 0xD574, 0xC8FC, 0xC138, 0xC694, 0x2E]"

text \<open>"Please upload a markdown or text file."\<close>

definition missing_file_message :: jsstring where
  "missing_file_message =
     [0xB9C8, 0xD06C, 0xB2E4, 0xC6B4, 0x20, 0xB610, 0xB294, 0x20, 0xD14D, 0xC2A4, 0xD2B8, 0x20,
      0xD30C, 0xC77C, 0xC744, 0x20, 0xC5C5, 0xB85C, 0xB4DC, 0xD574, 0xC8FC, 0xC138, 0xC694, 0x2E]"

text \<open>"Received an empty response from the API."\<close>

definition empty_response_message :: jsstring where
  "empty_response_message =
     ascii ''API'' @
     [0xB85C, 0xBD80, 0xD130, 0x20, 0xBE48, 0x20, 0xC751, 0xB2F5, 0xC744, 0x20, 0xBC1B, 0xC558,
      0xC2B5, 0xB2C8, 0xB2E4, 0x2E]"

text \<open>"Error while processing: "\<close>

definition processing_error_prefix :: jsstring where
  "processing_error_prefix =
     [0xCC98, 0xB9AC, 0x20, 0xC911, 0x20, 0xC624, 0xB958, 0x20, 0xBC1C, 0xC0DD, 0x3A, 0x20]"

text \<open>"File upload error: "\<close>

definition upload_error_prefix :: jsstring where
  "upload_error_prefix =
     [0xD30C, 0xC77C, 0x20, 0xC5C5, 0xB85C, 0xB4DC, 0x20, 0xC624, 0xB958, 0x3A, 0x20]"

text \<open>
  The two delimiter lines of the prompt, "--- markdown content start ---" and
  "--- markdown content end ---"; both entry points use them.
\<close>

definition start_marker :: jsstring where
  "start_marker =
     ascii ''--- '' @ [0xB9C8, 0xD06C, 0xB2E4, 0xC6B4, 0x20, 0xB0B4, 0xC6A9, 0x20, 0xC2DC, 0xC791] @
     ascii '' ---''"

definition end_marker :: jsstring where
  "end_marker =
     ascii ''--- '' @ [0xB9C8, 0xD06C, 0xB2E4, 0xC6B4, 0x20, 0xB0B4, 0xC6A9, 0x20, 0xB05D] @
     ascii '' ---''"

text \<open>
  The template literal of the handler. Its first line reads "Answer the following question
  on the basis of the given markdown content.", the last one starts with "Question: ".
\<close>

definition finalPrompt :: "jsstring \<Rightarrow> jsstring \<Rightarrow> jsstring" where
  "finalPrompt markdownContext q =
     [0xC8FC, 0xC5B4, 0xC9C4, 0x20, 0xB9C8, 0xD06C, 0xB2E4, 0xC6B4, 0x20, 0xB0B4, 0xC6A9, 0xC744,
      0x20, 0xBC14, 0xD0D5, 0xC73C, 0xB85C, 0x20, 0xB2E4, 0xC74C, 0x20, 0xC9C8, 0xBB38, 0xC5D0,
      0x20, 0xB2F5, 0xD574, 0xC8FC, 0xC138, 0xC694, 0x2E, 0x0A, 0x0A] @
     start_marker @ [0x0A] @
     markdownContext @ [0x0A] @
     end_marker @ [0x0A, 0x0A] @
     [0xC9C8, 0xBB38, 0x3A, 0x20] @ q @ [0x0A]"

definition system_message :: chat_message where
  "system_message =
     \<lparr>role = ascii ''system'',
      content = ascii ''You are a helpful assistant designed to answer questions based on the provided text context.''\<rparr>"

definition user_message :: "jsstring \<Rightarrow> chat_message" where
  "user_message prompt = \<lparr>role = ascii ''user'', content = prompt\<rparr>"

definition default_model :: jsstring where
  "default_model = ascii ''gpt-3.5-turbo''"

text \<open>\<open>completion.choices?.[0]?.message?.content?.trim()\<close>; \<open>None\<close> is \<open>undefined\<close>.\<close>

definition responseContent :: "completion \<Rightarrow> jsstring option" where
  "responseContent completion =
     (case choices completion of
        None \<Rightarrow> None
      | Some [] \<Rightarrow> None
      | Some (c # _) \<Rightarrow>
          (case choice_message c of
             None \<Rightarrow> None
           | Some m \<Rightarrow> map_option trim (message_content m)))"

text \<open>
  The body of the handler's \<open>try\<close> block: the answer, or the error thrown (by the provider
  call, or by the handler itself for an empty answer), with the calls made and the outside
  state. Logging to the console is left out.
\<close>

definition ask_try ::
  "'w provider \<Rightarrow> jsstring \<Rightarrow> uploaded_file \<Rightarrow> jsstring \<Rightarrow> 'w \<Rightarrow>
     (js_error + jsstring) \<times> chat_request list \<times> 'w" where
  "ask_try openai q file mdl w =
     (let markdownContext = toString_utf8 (buffer file);
          request = \<lparr>request_model = mdl,
                     messages = [system_message, user_message (finalPrompt markdownContext q)]\<rparr>
      in case openai request w of
           (Rejected err, w') \<Rightarrow> (Inl err, [request], w')
         | (Resolved completion, w') \<Rightarrow>
             (case responseContent completion of
                None \<Rightarrow> (Inl (Error empty_response_message), [request], w')
              | Some text \<Rightarrow>
                  if text = [] then (Inl (Error empty_response_message), [request], w')
                  else (Inr text, [request], w')))"

text \<open>The handler of \<open>POST /ask\<close>, run on \<open>req.body\<close> and \<open>req.file\<close> as multer left them.\<close>

definition ask_handler ::
  "'w provider \<Rightarrow> jsstring option \<Rightarrow> jsstring option \<Rightarrow> uploaded_file option \<Rightarrow> 'w \<Rightarrow>
     'w outcome" where
  "ask_handler openai question_field model_field file_field w =
     (let mdl = or_else model_field default_model in
      if \<not> truthy question_field then
        \<lparr>reply = \<lparr>status = 400, body = ErrorBody missing_question_message\<rparr>,
         provider_calls = [], world = w\<rparr>
      else
        (case file_field of
           None \<Rightarrow>
             \<lparr>reply = \<lparr>status = 400, body = ErrorBody missing_file_message\<rparr>,
              provider_calls = [], world = w\<rparr>
         | Some file \<Rightarrow>
             (case ask_try openai (the question_field) file mdl w of
                (Inr text, cs, w') \<Rightarrow>
                  \<lparr>reply = \<lparr>status = 200, body = Answer text\<rparr>,
                   provider_calls = cs, world = w'\<rparr>
              | (Inl err, cs, w') \<Rightarrow>
                  \<lparr>reply = \<lparr>status = 500, body = ErrorBody (processing_error_prefix @ message err)\<rparr>,
                   provider_calls = cs, world = w'\<rparr>)))"

text \<open>The error-handling middleware registered after the route.\<close>

fun error_middleware :: "js_error \<Rightarrow> response" where
  "error_middleware (MulterError code) =
     \<lparr>status = 400, body = ErrorBody (upload_error_prefix @ message (MulterError code))\<rparr>"
| "error_middleware (Error m) = \<lparr>status = 400, body = ErrorBody m\<rparr>"

text \<open>\<open>POST /ask\<close>: the upload middleware, then the handler or the error middleware.\<close>

definition post_ask :: "'w provider \<Rightarrow> submission \<Rightarrow> 'w \<Rightarrow> 'w outcome" where
  "post_ask openai sub w =
     (case upload_single sub of
        Inl err \<Rightarrow> \<lparr>reply = error_middleware err, provider_calls = [], world = w\<rparr>
      | Inr file_field \<Rightarrow> ask_handler openai (question sub) (model sub) file_field w)"

section \<open>The command-line entry point\<close>

text \<open>
  The template literal of \<open>processMarkdownAndAsk\<close>. It has one hole, for the text of the
  input file, between the same two delimiter lines; its last line is the fixed instruction
  "Write the problem corresponding to the given markdown in C99."
\<close>

definition cli_finalPrompt :: "jsstring \<Rightarrow> jsstring" where
  "cli_finalPrompt markdownContext =
     [0x0A] @ start_marker @ [0x0A] @
     markdownContext @ [0x0A] @
     end_marker @ [0x0A] @
     [0xC8FC, 0xC5B4, 0xC9C4, 0x20, 0xB9C8, 0xD06C, 0xB2E4, 0xC6B4, 0xC5D0, 0x20, 0xD574, 0xB2F9,
      0xD558, 0xB294, 0x20, 0xBB38, 0xC81C, 0xB97C, 0x20, 0x43, 0x39, 0x39, 0xB85C, 0x20, 0xC791,
      0xC131, 0xD574, 0xC918, 0x0A]"

text \<open>
  How the process ends: \<open>process.exit(1)\<close>, or the answer saved in the output file.
\<close>

datatype cli_result = ProcessExit nat | Saved jsstring

text \<open>
  \<open>processMarkdownAndAsk(question, inputFile, outputFile, model)\<close>. What the function finds
  outside is given with it: the value of \<open>OPENAI_API_KEY\<close>, what reading the input file
  yields (an error or the file's bytes, decoded as UTF-8), the provider, and whether the
  output file can be written. The model always has a value: the option parser supplies
  \<open>default_model\<close> when none is given on the command line.
\<close>

definition processMarkdownAndAsk ::
  "jsstring option \<Rightarrow> (js_error + byte list) \<Rightarrow> 'w provider \<Rightarrow> js_error option \<Rightarrow>
     jsstring \<Rightarrow> jsstring \<Rightarrow> 'w \<Rightarrow> cli_result \<times> chat_request list \<times> 'w" where
  "processMarkdownAndAsk apiKey readFile openai writeFile q mdl w =
     (if \<not> truthy apiKey then (ProcessExit 1, [], w)
      else
        (case readFile of
           Inl err \<Rightarrow> (ProcessExit 1, [], w)
         | Inr bytes \<Rightarrow>
             (let markdownContext = toString_utf8 bytes;
                  request = \<lparr>request_model = mdl,
                             messages = [system_message,
                                         user_message (cli_finalPrompt markdownContext)]\<rparr>
              in case openai request w of
                   (Rejected err, w') \<Rightarrow> (ProcessExit 1, [request], w')
                 | (Resolved completion, w') \<Rightarrow>
                     (case responseContent completion of
                        None \<Rightarrow> (ProcessExit 1, [request], w')
                      | Some text \<Rightarrow>
                          if text = [] then (ProcessExit 1, [request], w')
                          else
                            (case writeFile of
                               Some err \<Rightarrow> (ProcessExit 1, [request], w')
                             | None \<Rightarrow> (Saved text, [request], w'))))))"

section \<open>Sample inputs\<close>

text \<open>A provider that always answers with the text \<open>s\<close> and counts its calls.\<close>

definition stub_provider :: "jsstring \<Rightarrow> nat provider" where
  "stub_provider s =
     (\<lambda>request n. (Resolved (Completion (Some [Choice (Some (ChoiceMessage (Some s)))])), Suc n))"

text \<open>The document \<open># Title\<close>, declared as markdown.\<close>

definition markdown_file :: uploaded_file where
  "markdown_file =
     \<lparr>originalname = ascii ''doc.md'', mimetype = ascii ''text/markdown'',
      buffer = [0x23, 0x20, 0x54, 0x69, 0x74, 0x6C, 0x65]\<rparr>"

definition pdf_file :: uploaded_file where
  "pdf_file =
     \<lparr>originalname = ascii ''doc.pdf'', mimetype = ascii ''application/pdf'',
      buffer = [0x25, 0x50, 0x44, 0x46]\<rparr>"

text \<open>A submission with a question, the given file and no model field.\<close>

definition ask_about :: "uploaded_file \<Rightarrow> submission" where
  "ask_about file =
     \<lparr>question = Some (ascii ''What does this do?''), markdownFile = Some file, model = None\<rparr>"

text \<open>Two files of one byte more than the limit.\<close>

definition oversized_pdf :: uploaded_file where
  "oversized_pdf =
     \<lparr>originalname = ascii ''big.pdf'', mimetype = ascii ''application/pdf'',
      buffer = replicate 104857601 0x20\<rparr>"

definition oversized_text :: uploaded_file where
  "oversized_text =
     \<lparr>originalname = ascii ''big.txt'', mimetype = ascii ''text/plain'',
      buffer = replicate 104857601 0x20\<rparr>"

text \<open>A text file whose second byte, 0xFF, occurs in no UTF-8 sequence.\<close>

definition invalid_utf8_file :: uploaded_file where
  "invalid_utf8_file =
     \<lparr>originalname = ascii ''latin1.txt'', mimetype = ascii ''text/plain'', buffer = [0x68, 0xFF]\<rparr>"

text \<open>The same bytes under another name and declared as plain text.\<close>

definition renamed_file :: uploaded_file where
  "renamed_file = markdown_file\<lparr>originalname := ascii ''notes.txt'', mimetype := ascii ''text/plain''\<rparr>"

text \<open>A file declared as an image.\<close>

definition png_file :: uploaded_file where
  "png_file =
     \<lparr>originalname = ascii ''pic.png'', mimetype = ascii ''image/png'',
      buffer = [0x89, 0x50, 0x4E, 0x47]\<rparr>"

lemmas sample_defs = ask_about_def markdown_file_def pdf_file_def oversized_pdf_def
  oversized_text_def stub_provider_def ascii_def fileSize_def

section \<open>Properties of the building blocks\<close>


lemma upload_single_no_file:
  "markdownFile sub = None \<Longrightarrow> upload_single sub = Inr None"
  by (simp add: upload_single_def)

lemma upload_single_unsupported:
  "markdownFile sub = Some f \<Longrightarrow> mimetype f \<noteq> ascii ''text/markdown'' \<Longrightarrow>
   mimetype f \<noteq> ascii ''text/plain'' \<Longrightarrow> upload_single sub = Inl (Error fileFilter_message)"
  by (simp add: upload_single_def fileFilter_def)

lemma upload_single_too_large:
  "markdownFile sub = Some f \<Longrightarrow>
   mimetype f = ascii ''text/markdown'' \<or> mimetype f = ascii ''text/plain'' \<Longrightarrow>
   length (buffer f) > fileSize \<Longrightarrow> upload_single sub = Inl (MulterError LIMIT_FILE_SIZE)"
  by (simp add: upload_single_def fileFilter_def)

lemma upload_single_accepted:
  "markdownFile sub = Some f \<Longrightarrow>
   mimetype f = ascii ''text/markdown'' \<or> mimetype f = ascii ''text/plain'' \<Longrightarrow>
   length (buffer f) \<le> fileSize \<Longrightarrow> upload_single sub = Inr (Some f)"
  by (simp add: upload_single_def fileFilter_def)

lemma ask_try_calls:
  "fst (snd (ask_try openai q f mdl w)) =
     [\<lparr>request_model = mdl,
       messages = [system_message, user_message (finalPrompt (toString_utf8 (buffer f)) q)]\<rparr>]"
  by (simp add: ask_try_def Let_def split: prod.splits provider_result.splits option.splits)

lemma ask_try_resolved:
  "openai \<lparr>request_model = mdl,
       messages = [system_message, user_message (finalPrompt (toString_utf8 (buffer f)) q)]\<rparr> w
     = (Resolved c, w') \<Longrightarrow>
   fst (ask_try openai q f mdl w) =
     (case responseContent c of None \<Rightarrow> Inl (Error empty_response_message)
      | Some t \<Rightarrow> if t = [] then Inl (Error empty_response_message) else Inr t)"
  by (simp add: ask_try_def Let_def split: option.splits)


lemma ask_handler_calls:
  "truthy qf \<Longrightarrow>
   provider_calls (ask_handler openai qf mf (Some f) w) =
     [\<lparr>request_model = or_else mf default_model,
       messages = [system_message, user_message (finalPrompt (toString_utf8 (buffer f)) (the qf))]\<rparr>]"
  using ask_try_calls [of openai "the qf" f "or_else mf default_model" w]
  by (auto simp add: ask_handler_def Let_def split: prod.splits sum.splits)

lemma ask_handler_reply:
  "truthy qf \<Longrightarrow>
   reply (ask_handler openai qf mf (Some f) w) =
     (case fst (ask_try openai (the qf) f (or_else mf default_model) w) of
        Inr t \<Rightarrow> \<lparr>status = 200, body = Answer t\<rparr>
      | Inl err \<Rightarrow> \<lparr>status = 500, body = ErrorBody (processing_error_prefix @ message err)\<rparr>)"
  by (simp add: ask_handler_def Let_def split: prod.splits sum.splits)

lemma ask_handler_falsy:
  "\<not> truthy qf \<Longrightarrow>
   ask_handler openai qf mf ff w =
     \<lparr>reply = \<lparr>status = 400, body = ErrorBody missing_question_message\<rparr>,
      provider_calls = [], world = w\<rparr>"
  by (simp add: ask_handler_def)

lemma ask_handler_no_file:
  "truthy qf \<Longrightarrow>
   ask_handler openai qf mf None w =
     \<lparr>reply = \<lparr>status = 400, body = ErrorBody missing_file_message\<rparr>,
      provider_calls = [], world = w\<rparr>"
  by (simp add: ask_handler_def)

lemma post_ask_accepted:
  assumes "question sub = Some q" and "q \<noteq> []" and "markdownFile sub = Some f"
    and "mimetype f = ascii ''text/markdown'' \<or> mimetype f = ascii ''text/plain''"
    and "length (buffer f) \<le> fileSize"
  shows "post_ask openai sub w = ask_handler openai (Some q) (model sub) (Some f) w"
  using upload_single_accepted [OF assms(3,4,5)] assms(1) by (simp add: post_ask_def)

lemma post_ask_calls:
  assumes "question sub = Some q" and "q \<noteq> []" and "markdownFile sub = Some f"
    and "mimetype f = ascii ''text/markdown'' \<or> mimetype f = ascii ''text/plain''"
    and "length (buffer f) \<le> fileSize"
  shows "provider_calls (post_ask openai sub w) =
           [\<lparr>request_model = or_else (model sub) default_model,
             messages = [system_message,
                         user_message (finalPrompt (toString_utf8 (buffer f)) q)]\<rparr>]"
  using assms(2) by (simp add: post_ask_accepted [OF assms] ask_handler_calls)

lemma post_ask_resolved:
  assumes "question sub = Some q" and "q \<noteq> []" and "markdownFile sub = Some f"
    and "mimetype f = ascii ''text/markdown'' \<or> mimetype f = ascii ''text/plain''"
    and "length (buffer f) \<le> fileSize"
    and "openai \<lparr>request_model = or_else (model sub) default_model,
                 messages = [system_message,
                             user_message (finalPrompt (toString_utf8 (buffer f)) q)]\<rparr> w
           = (Resolved c, w')"
  shows "reply (post_ask openai sub w) =
           (case responseContent c of
              None \<Rightarrow> \<lparr>status = 500,
                        body = ErrorBody (processing_error_prefix @ empty_response_message)\<rparr>
            | Some t \<Rightarrow>
                if t = [] then \<lparr>status = 500,
                        body = ErrorBody (processing_error_prefix @ empty_response_message)\<rparr>
                else \<lparr>status = 200, body = Answer t\<rparr>)"
proof -
  have "fst (ask_try openai q f (or_else (model sub) default_model) w) =
          (case responseContent c of None \<Rightarrow> Inl (Error empty_response_message)
           | Some t \<Rightarrow> if t = [] then Inl (Error empty_response_message) else Inr t)"
    using assms(6) by (rule ask_try_resolved)
  with assms(2) show ?thesis
    by (simp add: post_ask_accepted [OF assms(1-5)] ask_handler_reply split: option.splits)
qed


lemma messages_distinct:
  "fileFilter_message \<noteq> missing_question_message"
  "fileFilter_message \<noteq> upload_error_prefix @ ascii ''File too large''"
  "missing_question_message \<noteq> upload_error_prefix @ ascii ''File too large''"
  "missing_file_message \<noteq> upload_error_prefix @ ascii ''File too large''"
  "processing_error_prefix @ m \<noteq> upload_error_prefix @ ascii ''File too large''"
  by (simp_all add: fileFilter_message_def missing_question_message_def upload_error_prefix_def
      missing_file_message_def processing_error_prefix_def ascii_def)

lemma or_else_cases:
  "or_else a d = (case a of None \<Rightarrow> d | Some m \<Rightarrow> if m = [] then d else m)"
  by (cases a) (simp_all add: or_else_def)

lemma post_ask_rejected:
  assumes "question sub = Some q" and "q \<noteq> []" and "markdownFile sub = Some f"
    and "mimetype f = ascii ''text/markdown'' \<or> mimetype f = ascii ''text/plain''"
    and "length (buffer f) \<le> fileSize"
    and "openai \<lparr>request_model = or_else (model sub) default_model,
                 messages = [system_message,
                             user_message (finalPrompt (toString_utf8 (buffer f)) q)]\<rparr> w
           = (Rejected err, w')"
  shows "reply (post_ask openai sub w) =
           \<lparr>status = 500, body = ErrorBody (processing_error_prefix @ message err)\<rparr>"
proof -
  have "fst (ask_try openai q f (or_else (model sub) default_model) w) = Inl err"
    using assms(6) by (simp add: ask_try_def Let_def)
  with assms(2) show ?thesis
    by (simp add: post_ask_accepted [OF assms(1-5)] ask_handler_reply)
qed

lemma decode_error_replaced:
  "DecodeError \<in> set (utf8_decode bs) \<Longrightarrow> 0xFFFD \<in> set (toString_utf8 bs)"
  by (auto simp add: toString_utf8_def intro: bexI [of _ DecodeError])

lemma post_ask_model_empty:
  "post_ask openai (sub\<lparr>model := Some []\<rparr>) w = post_ask openai (sub\<lparr>model := None\<rparr>) w"
proof -
  have "ask_handler openai qf (Some []) ff w = ask_handler openai qf None ff w" for qf ff
    by (simp add: ask_handler_def or_else_def)
  moreover have "upload_single (sub\<lparr>model := mf\<rparr>) = upload_single sub" for mf
    by (simp add: upload_single_def)
  ultimately show ?thesis
    by (cases "upload_single sub") (simp_all add: post_ask_def)
qed

lemma suffix_finalPrompt: "suffix (q @ [0x0A]) (finalPrompt d q)"
  unfolding suffix_def finalPrompt_def
  by (rule exI [where x = "[0xC8FC, 0xC5B4, 0xC9C4, 0x20, 0xB9C8, 0xD06C, 0xB2E4, 0xC6B4, 0x20,
      0xB0B4, 0xC6A9, 0xC744, 0x20, 0xBC14, 0xD0D5, 0xC73C, 0xB85C, 0x20, 0xB2E4, 0xC74C, 0x20,
      0xC9C8, 0xBB38, 0xC5D0, 0x20, 0xB2F5, 0xD574, 0xC8FC, 0xC138, 0xC694, 0x2E, 0x0A, 0x0A] @
      start_marker @ [0x0A] @ d @ [0x0A] @ end_marker @
      [0x0A, 0x0A, 0xC9C8, 0xBB38, 0x3A, 0x20]"]) simp

lemma cli_messages:
  "truthy apiKey \<Longrightarrow>
   map messages (fst (snd (processMarkdownAndAsk apiKey (Inr bytes) openai write_error q mdl w))) =
     [[system_message, user_message (cli_finalPrompt (toString_utf8 bytes))]]"
  by (simp add: processMarkdownAndAsk_def Let_def
      split: prod.splits provider_result.splits option.splits)

lemma ask_try_world:
  "snd (snd (ask_try openai q f mdl w)) =
     snd (openai \<lparr>request_model = mdl,
            messages = [system_message, user_message (finalPrompt (toString_utf8 (buffer f)) q)]\<rparr> w)"
  by (simp add: ask_try_def Let_def split: prod.splits provider_result.splits option.splits)

lemma ask_handler_world:
  "truthy qf \<Longrightarrow>
   world (ask_handler openai qf mf (Some f) w) =
     snd (openai \<lparr>request_model = or_else mf default_model,
            messages = [system_message,
                        user_message (finalPrompt (toString_utf8 (buffer f)) (the qf))]\<rparr> w)"
  using ask_try_world [of openai "the qf" f "or_else mf default_model" w]
  by (auto simp add: ask_handler_def Let_def split: prod.splits sum.splits)

lemma post_ask_world:
  assumes "question sub = Some q" and "q \<noteq> []" and "markdownFile sub = Some f"
    and "mimetype f = ascii ''text/markdown'' \<or> mimetype f = ascii ''text/plain''"
    and "length (buffer f) \<le> fileSize"
  shows "world (post_ask openai sub w) =
           snd (openai \<lparr>request_model = or_else (model sub) default_model,
                  messages = [system_message,
                              user_message (finalPrompt (toString_utf8 (buffer f)) q)]\<rparr> w)"
  using assms(2) by (simp add: post_ask_accepted [OF assms] ask_handler_world)

lemma post_ask_reply:
  assumes "question sub = Some q" and "q \<noteq> []" and "markdownFile sub = Some f"
    and "mimetype f = ascii ''text/markdown'' \<or> mimetype f = ascii ''text/plain''"
    and "length (buffer f) \<le> fileSize"
  shows "reply (post_ask openai sub w) =
           (case fst (openai \<lparr>request_model = or_else (model sub) default_model,
                               messages = [system_message,
                                 user_message (finalPrompt (toString_utf8 (buffer f)) q)]\<rparr> w) of
              Rejected err \<Rightarrow>
                \<lparr>status = 500, body = ErrorBody (processing_error_prefix @ message err)\<rparr>
            | Resolved c \<Rightarrow>
                (case responseContent c of
                   None \<Rightarrow> \<lparr>status = 500,
                     body = ErrorBody (processing_error_prefix @ empty_response_message)\<rparr>
                 | Some t \<Rightarrow>
                     if t = [] then \<lparr>status = 500,
                       body = ErrorBody (processing_error_prefix @ empty_response_message)\<rparr>
                     else \<lparr>status = 200, body = Answer t\<rparr>))"
proof -
  let ?req = "\<lparr>request_model = or_else (model sub) default_model,
               messages = [system_message,
                           user_message (finalPrompt (toString_utf8 (buffer f)) q)]\<rparr>"
  obtain r w' where call: "openai ?req w = (r, w')" by (cases "openai ?req w")
  show ?thesis
  proof (cases r)
    case (Resolved c)
    with call have "openai ?req w = (Resolved c, w')" by simp
    with assms have "reply (post_ask openai sub w) =
           (case responseContent c of
              None \<Rightarrow> \<lparr>status = 500,
                        body = ErrorBody (processing_error_prefix @ empty_response_message)\<rparr>
            | Some t \<Rightarrow>
                if t = [] then \<lparr>status = 500,
                        body = ErrorBody (processing_error_prefix @ empty_response_message)\<rparr>
                else \<lparr>status = 200, body = Answer t\<rparr>)"
      by (rule post_ask_resolved)
    with call Resolved show ?thesis by simp
  next
    case (Rejected err)
    with call have "openai ?req w = (Rejected err, w')" by simp
    with assms have "reply (post_ask openai sub w) =
           \<lparr>status = 500, body = ErrorBody (processing_error_prefix @ message err)\<rparr>"
      by (rule post_ask_rejected)
    with call Rejected show ?thesis by simp
  qed
qed

lemma count_replacements:
  "count_list ts DecodeError \<le> count_list (concat (map token_units ts)) 0xFFFD"
proof (induction ts)
  case Nil
  show ?case by simp
next
  case (Cons t ts)
  then show ?case by (cases t) simp_all
qed

lemmas decoder_defs = toString_utf8_def utf8_decode_def valid_utf8_def decoder_step_def
  lead_byte_def decoder_init_def utf16_units_def

section \<open>The claims\<close>

text \<open>
  C4 says that the error names the unsupported type. The file filter's message is one
  fixed text: a file declared as \<open>application/pdf\<close> is answered with a message in which
  neither \<open>application/pdf\<close> nor \<open>pdf\<close> occurs, and a file declared as
  \<open>image/png\<close> gets the very same reply.
\<close>

theorem media_type_not_named_counterexample:
  "reply (post_ask (stub_provider (ascii ''ok'')) (ask_about pdf_file) 0) =
     \<lparr>status = 400, body = ErrorBody fileFilter_message\<rparr> \<and>
   mimetype pdf_file = ascii ''application/pdf'' \<and>
   \<not> sublist (ascii ''application/pdf'') fileFilter_message \<and>
   \<not> sublist (ascii ''pdf'') fileFilter_message \<and>
   mimetype png_file = ascii ''image/png'' \<and>
   reply (post_ask (stub_provider (ascii ''ok'')) (ask_about png_file) 0) =
     reply (post_ask (stub_provider (ascii ''ok'')) (ask_about pdf_file) 0)"
proof (intro conjI)
  show pdf: "reply (post_ask (stub_provider (ascii ''ok'')) (ask_about pdf_file) 0) =
     \<lparr>status = 400, body = ErrorBody fileFilter_message\<rparr>"
    by (simp add: post_ask_def upload_single_def fileFilter_def ask_about_def pdf_file_def ascii_def)
  show "mimetype pdf_file = ascii ''application/pdf''" by (simp add: pdf_file_def)
  show "\<not> sublist (ascii ''application/pdf'') fileFilter_message"
    by (simp add: fileFilter_message_def ascii_def sublist_code(3))
  show "\<not> sublist (ascii ''pdf'') fileFilter_message"
    by (simp add: fileFilter_message_def ascii_def sublist_code(3))
  show "mimetype png_file = ascii ''image/png''" by (simp add: png_file_def)
  have "reply (post_ask (stub_provider (ascii ''ok'')) (ask_about png_file) 0) =
     \<lparr>status = 400, body = ErrorBody fileFilter_message\<rparr>"
    by (simp add: post_ask_def upload_single_def fileFilter_def ask_about_def png_file_def ascii_def)
  with pdf show "reply (post_ask (stub_provider (ascii ''ok'')) (ask_about png_file) 0) =
     reply (post_ask (stub_provider (ascii ''ok'')) (ask_about pdf_file) 0)"
    by simp
qed

text \<open>
  C4, as the code has it. A submission whose file declares a media type other than exactly
  \<open>text/markdown\<close> or \<open>text/plain\<close> is answered with status 400 and the file
  filter's fixed message, which says that only Markdown and text files can be uploaded and
  is the same for every rejected type; the provider is not called and the outside state
  is untouched. This holds whatever the question, the model and the size of the file are.
\<close>

theorem unsupported_media_type_rejected:
  assumes "markdownFile sub = Some f"
    and "mimetype f \<noteq> ascii ''text/markdown''"
    and "mimetype f \<noteq> ascii ''text/plain''"
  shows "post_ask openai sub w =
           \<lparr>reply = \<lparr>status = 400, body = ErrorBody fileFilter_message\<rparr>,
            provider_calls = [], world = w\<rparr>"
  using upload_single_unsupported [OF assms] by (simp add: post_ask_def)

theorem unsupported_media_type_rejected_witness:
  "markdownFile \<lparr>question = Some (ascii ''What?''), markdownFile = Some pdf_file, model = None\<rparr>
     = Some pdf_file \<and>
   mimetype pdf_file \<noteq> ascii ''text/markdown'' \<and>
   mimetype pdf_file \<noteq> ascii ''text/plain'' \<and>
   post_ask (stub_provider (ascii ''ok''))
       \<lparr>question = Some (ascii ''What?''), markdownFile = Some pdf_file, model = None\<rparr> 0 =
     \<lparr>reply = \<lparr>status = 400, body = ErrorBody fileFilter_message\<rparr>,
      provider_calls = [], world = 0\<rparr>"
  using unsupported_media_type_rejected
    [of "\<lparr>question = Some (ascii ''What?''), markdownFile = Some pdf_file, model = None\<rparr>"
        pdf_file "stub_provider (ascii ''ok'')" "0::nat"]
  by (simp add: pdf_file_def ascii_def)



text \<open>
  C1 says that a question of white space only is rejected like a missing one, and that a
  missing question is always reported as such. The handler tests the question for
  truthiness without trimming it: a question of two spaces, sent with a valid file,
  reaches the provider and is answered with status 200. And the upload middleware runs
  first: without a question, a text file above the size limit is answered with "File too
  large".
\<close>

theorem missing_question_counterexample:
  "trim (ascii ''  '') = [] \<and>
   reply (post_ask (stub_provider (ascii ''ok''))
            \<lparr>question = Some (ascii ''  ''), markdownFile = Some markdown_file, model = None\<rparr> 0)
     = \<lparr>status = 200, body = Answer (ascii ''ok'')\<rparr> \<and>
   length (provider_calls (post_ask (stub_provider (ascii ''ok''))
            \<lparr>question = Some (ascii ''  ''), markdownFile = Some markdown_file, model = None\<rparr> 0))
     = 1 \<and>
   body (reply (post_ask (stub_provider (ascii ''ok''))
            \<lparr>question = None, markdownFile = Some oversized_text, model = None\<rparr> 0))
     = ErrorBody (upload_error_prefix @ ascii ''File too large'') \<and>
   missing_question_message \<noteq> upload_error_prefix @ ascii ''File too large''"
proof (intro conjI)
  show "trim (ascii ''  '') = []"
    by (simp add: trim_def trimStart_def trimEnd_def isWhiteSpace_def ascii_def)
  show "reply (post_ask (stub_provider (ascii ''ok''))
            \<lparr>question = Some (ascii ''  ''), markdownFile = Some markdown_file, model = None\<rparr> 0)
     = \<lparr>status = 200, body = Answer (ascii ''ok'')\<rparr>"
    by (simp add: post_ask_def upload_single_def fileFilter_def ask_handler_def ask_try_def
        or_else_def responseContent_def trim_def trimStart_def trimEnd_def isWhiteSpace_def
        sample_defs)
  show "length (provider_calls (post_ask (stub_provider (ascii ''ok''))
            \<lparr>question = Some (ascii ''  ''), markdownFile = Some markdown_file, model = None\<rparr> 0))
     = 1"
    by (simp add: post_ask_calls [where q = "ascii ''  ''" and f = markdown_file]
        markdown_file_def ascii_def fileSize_def)
  show "body (reply (post_ask (stub_provider (ascii ''ok''))
            \<lparr>question = None, markdownFile = Some oversized_text, model = None\<rparr> 0))
     = ErrorBody (upload_error_prefix @ ascii ''File too large'')"
    by (simp add: post_ask_def upload_single_def fileFilter_def oversized_text_def fileSize_def)
  show "missing_question_message \<noteq> upload_error_prefix @ ascii ''File too large''"
    by (rule messages_distinct)
qed

text \<open>
  C1, as the code has it. A submission whose question field is absent or empty is answered
  with status 400, the provider is not called and the outside state is untouched. When the
  upload middleware lets the submission through (no file, or a file of an allowed media
  type within the size limit), the message is "Please enter a question.".
\<close>

theorem missing_question_rejected:
  assumes "question sub = None \<or> question sub = Some []"
  shows "status (reply (post_ask openai sub w)) = 400 \<and>
         provider_calls (post_ask openai sub w) = [] \<and>
         world (post_ask openai sub w) = w \<and>
         ((\<forall>f. markdownFile sub = Some f \<longrightarrow>
              (mimetype f = ascii ''text/markdown'' \<or> mimetype f = ascii ''text/plain'') \<and>
              length (buffer f) \<le> fileSize) \<longrightarrow>
          body (reply (post_ask openai sub w)) = ErrorBody missing_question_message)"
proof -
  from assms have falsy: "\<not> truthy (question sub)" by auto
  show ?thesis
  proof (cases "upload_single sub")
    case (Inl err)
    then have rejected: "\<exists>f. markdownFile sub = Some f \<and>
        \<not> ((mimetype f = ascii ''text/markdown'' \<or> mimetype f = ascii ''text/plain'') \<and>
           length (buffer f) \<le> fileSize)"
      by (auto simp add: upload_single_def fileFilter_def split: option.splits if_splits)
    from Inl have "post_ask openai sub w =
        \<lparr>reply = error_middleware err, provider_calls = [], world = w\<rparr>"
      by (simp add: post_ask_def)
    with rejected show ?thesis by (cases err) auto
  next
    case (Inr ff)
    then have "post_ask openai sub w =
        \<lparr>reply = \<lparr>status = 400, body = ErrorBody missing_question_message\<rparr>,
         provider_calls = [], world = w\<rparr>"
      using falsy by (simp add: post_ask_def ask_handler_falsy)
    then show ?thesis by simp
  qed
qed

theorem missing_question_rejected_witness:
  "post_ask (stub_provider (ascii ''ok''))
     \<lparr>question = Some [], markdownFile = Some markdown_file, model = None\<rparr> 0 =
   \<lparr>reply = \<lparr>status = 400, body = ErrorBody missing_question_message\<rparr>,
    provider_calls = [], world = 0\<rparr>"
proof -
  have "status (reply (post_ask (stub_provider (ascii ''ok''))
     \<lparr>question = Some [], markdownFile = Some markdown_file, model = None\<rparr> 0)) = 400 \<and>
    provider_calls (post_ask (stub_provider (ascii ''ok''))
     \<lparr>question = Some [], markdownFile = Some markdown_file, model = None\<rparr> 0) = [] \<and>
    world (post_ask (stub_provider (ascii ''ok''))
     \<lparr>question = Some [], markdownFile = Some markdown_file, model = None\<rparr> 0) = 0 \<and>
    body (reply (post_ask (stub_provider (ascii ''ok''))
     \<lparr>question = Some [], markdownFile = Some markdown_file, model = None\<rparr> 0))
      = ErrorBody missing_question_message"
    using missing_question_rejected
      [where sub = "\<lparr>question = Some [], markdownFile = Some markdown_file, model = None\<rparr>"
         and openai = "stub_provider (ascii ''ok'')" and w = "0::nat"]
    by (simp add: markdown_file_def fileSize_def)
  then show ?thesis
    by (cases "post_ask (stub_provider (ascii ''ok''))
     \<lparr>question = Some [], markdownFile = Some markdown_file, model = None\<rparr> 0";
        cases "reply (post_ask (stub_provider (ascii ''ok''))
     \<lparr>question = Some [], markdownFile = Some markdown_file, model = None\<rparr> 0)") auto
qed

text \<open>
  C5 says that the question is checked before the media type. The upload middleware runs
  before the handler: a submission without a question whose file is declared as
  \<open>application/pdf\<close> is answered with the file filter's message, not with the message for
  a missing question.
\<close>

theorem validation_order_counterexample:
  "question \<lparr>question = None, markdownFile = Some pdf_file, model = None\<rparr> = None \<and>
   body (reply (post_ask (stub_provider (ascii ''ok''))
            \<lparr>question = None, markdownFile = Some pdf_file, model = None\<rparr> 0))
     = ErrorBody fileFilter_message \<and>
   fileFilter_message \<noteq> missing_question_message"
  by (simp add: post_ask_def upload_single_def fileFilter_def pdf_file_def ascii_def
      messages_distinct)

text \<open>
  C5, as the code has it. The checks apply in the order media type, size, question, file:
  a file of another media type gets the filter's message whatever else is wrong; a file of
  an allowed type that is too long gets "File too large" whatever the question is; once
  the upload passed, a missing or empty question is reported even when the file is missing
  too; and the missing file is reported only for a submission with a question. None of the
  four calls the provider.
\<close>

theorem validation_order:
  "(markdownFile sub = Some f \<and> mimetype f \<noteq> ascii ''text/markdown'' \<and>
      mimetype f \<noteq> ascii ''text/plain'' \<longrightarrow>
      post_ask openai sub w =
        \<lparr>reply = \<lparr>status = 400, body = ErrorBody fileFilter_message\<rparr>,
         provider_calls = [], world = w\<rparr>)
 \<and> (markdownFile sub = Some f \<and>
      (mimetype f = ascii ''text/markdown'' \<or> mimetype f = ascii ''text/plain'') \<and>
      length (buffer f) > fileSize \<longrightarrow>
      post_ask openai sub w =
        \<lparr>reply = \<lparr>status = 400,
                  body = ErrorBody (upload_error_prefix @ ascii ''File too large'')\<rparr>,
         provider_calls = [], world = w\<rparr>)
 \<and> ((markdownFile sub = None \<or>
       markdownFile sub = Some f \<and>
       (mimetype f = ascii ''text/markdown'' \<or> mimetype f = ascii ''text/plain'') \<and>
       length (buffer f) \<le> fileSize) \<and>
      (question sub = None \<or> question sub = Some []) \<longrightarrow>
      post_ask openai sub w =
        \<lparr>reply = \<lparr>status = 400, body = ErrorBody missing_question_message\<rparr>,
         provider_calls = [], world = w\<rparr>)
 \<and> (markdownFile sub = None \<and> question sub = Some q \<and> q \<noteq> [] \<longrightarrow>
      post_ask openai sub w =
        \<lparr>reply = \<lparr>status = 400, body = ErrorBody missing_file_message\<rparr>,
         provider_calls = [], world = w\<rparr>)"
proof (intro conjI impI)
  assume "markdownFile sub = Some f \<and> mimetype f \<noteq> ascii ''text/markdown'' \<and>
      mimetype f \<noteq> ascii ''text/plain''"
  then show "post_ask openai sub w =
        \<lparr>reply = \<lparr>status = 400, body = ErrorBody fileFilter_message\<rparr>,
         provider_calls = [], world = w\<rparr>"
    by (simp add: post_ask_def upload_single_unsupported)
next
  assume "markdownFile sub = Some f \<and>
      (mimetype f = ascii ''text/markdown'' \<or> mimetype f = ascii ''text/plain'') \<and>
      length (buffer f) > fileSize"
  then have "upload_single sub = Inl (MulterError LIMIT_FILE_SIZE)"
    by (simp add: upload_single_too_large)
  then show "post_ask openai sub w =
        \<lparr>reply = \<lparr>status = 400,
                  body = ErrorBody (upload_error_prefix @ ascii ''File too large'')\<rparr>,
         provider_calls = [], world = w\<rparr>"
    by (simp add: post_ask_def)
next
  assume a: "(markdownFile sub = None \<or>
       markdownFile sub = Some f \<and>
       (mimetype f = ascii ''text/markdown'' \<or> mimetype f = ascii ''text/plain'') \<and>
       length (buffer f) \<le> fileSize) \<and>
      (question sub = None \<or> question sub = Some [])"
  then have "\<exists>ff. upload_single sub = Inr ff"
    by (auto simp add: upload_single_no_file upload_single_accepted)
  moreover from a have "\<not> truthy (question sub)" by auto
  ultimately show "post_ask openai sub w =
        \<lparr>reply = \<lparr>status = 400, body = ErrorBody missing_question_message\<rparr>,
         provider_calls = [], world = w\<rparr>"
    by (auto simp add: post_ask_def ask_handler_falsy)
next
  assume "markdownFile sub = None \<and> question sub = Some q \<and> q \<noteq> []"
  then show "post_ask openai sub w =
        \<lparr>reply = \<lparr>status = 400, body = ErrorBody missing_file_message\<rparr>,
         provider_calls = [], world = w\<rparr>"
    by (simp add: post_ask_def upload_single_no_file ask_handler_no_file)
qed

theorem validation_order_witness:
  "post_ask (stub_provider (ascii ''ok''))
     \<lparr>question = None, markdownFile = Some oversized_text, model = None\<rparr> 0 =
   \<lparr>reply = \<lparr>status = 400, body = ErrorBody (upload_error_prefix @ ascii ''File too large'')\<rparr>,
    provider_calls = [], world = 0\<rparr> \<and>
   post_ask (stub_provider (ascii ''ok''))
     \<lparr>question = None, markdownFile = None, model = None\<rparr> 0 =
   \<lparr>reply = \<lparr>status = 400, body = ErrorBody missing_question_message\<rparr>,
    provider_calls = [], world = 0\<rparr>"
proof -
  have "post_ask (stub_provider (ascii ''ok''))
     \<lparr>question = None, markdownFile = Some oversized_text, model = None\<rparr> 0 =
   \<lparr>reply = \<lparr>status = 400, body = ErrorBody (upload_error_prefix @ ascii ''File too large'')\<rparr>,
    provider_calls = [], world = 0\<rparr>"
    using validation_order
      [where sub = "\<lparr>question = None, markdownFile = Some oversized_text, model = None\<rparr>"
         and f = oversized_text and openai = "stub_provider (ascii ''ok'')" and w = "0::nat"
         and q = "[]"]
    by (simp add: oversized_text_def fileSize_def)
  moreover have "post_ask (stub_provider (ascii ''ok''))
     \<lparr>question = None, markdownFile = None, model = None\<rparr> 0 =
   \<lparr>reply = \<lparr>status = 400, body = ErrorBody missing_question_message\<rparr>,
    provider_calls = [], world = 0\<rparr>"
    using validation_order
      [where sub = "\<lparr>question = None, markdownFile = None, model = None\<rparr>"
         and f = markdown_file and openai = "stub_provider (ascii ''ok'')" and w = "0::nat"
         and q = "[]"]
    by simp
  ultimately show ?thesis by blast
qed

text \<open>
  C7 says that every file above the limit is answered with the "file too large" error. The
  file filter is asked before the size is known: a file of one byte more than the limit
  that is declared as \<open>application/pdf\<close> is answered with the filter's message.
\<close>

theorem oversized_unsupported_counterexample:
  "length (buffer oversized_pdf) > 100 * 1024 * 1024 \<and>
   body (reply (post_ask (stub_provider (ascii ''ok'')) (ask_about oversized_pdf) 0))
     = ErrorBody fileFilter_message \<and>
   fileFilter_message \<noteq> upload_error_prefix @ ascii ''File too large''"
proof (intro conjI)
  show "length (buffer oversized_pdf) > 100 * 1024 * 1024"
    by (simp add: oversized_pdf_def)
  show "body (reply (post_ask (stub_provider (ascii ''ok'')) (ask_about oversized_pdf) 0))
     = ErrorBody fileFilter_message"
    by (simp add: post_ask_def upload_single_def fileFilter_def oversized_pdf_def ask_about_def
        ascii_def)
  show "fileFilter_message \<noteq> upload_error_prefix @ ascii ''File too large''"
    by (rule messages_distinct)
qed

text \<open>
  C7, as the code has it. The limit is 100 * 1024 * 1024 bytes. A file of an allowed media
  type that is longer is answered with status 400 and "File upload error: File too large";
  any file that is longer is answered with status 400; and in both cases no provider call
  is made. A file that is not longer than the limit never gets the "file too large" error.
\<close>

theorem oversized_file_rejected:
  assumes "markdownFile sub = Some f"
  shows "((mimetype f = ascii ''text/markdown'' \<or> mimetype f = ascii ''text/plain'') \<and>
          length (buffer f) > fileSize \<longrightarrow>
          post_ask openai sub w =
            \<lparr>reply = \<lparr>status = 400,
                      body = ErrorBody (upload_error_prefix @ ascii ''File too large'')\<rparr>,
             provider_calls = [], world = w\<rparr>)
       \<and> (length (buffer f) > fileSize \<longrightarrow>
          status (reply (post_ask openai sub w)) = 400 \<and>
          provider_calls (post_ask openai sub w) = [])
       \<and> (length (buffer f) \<le> fileSize \<longrightarrow>
          body (reply (post_ask openai sub w)) \<noteq>
            ErrorBody (upload_error_prefix @ ascii ''File too large''))
       \<and> fileSize = 104857600"
proof -
  have too_large: "post_ask openai sub w =
            \<lparr>reply = \<lparr>status = 400,
                      body = ErrorBody (upload_error_prefix @ ascii ''File too large'')\<rparr>,
             provider_calls = [], world = w\<rparr>"
    if "(mimetype f = ascii ''text/markdown'' \<or> mimetype f = ascii ''text/plain'') \<and>
          length (buffer f) > fileSize"
  proof -
    from assms that have "upload_single sub = Inl (MulterError LIMIT_FILE_SIZE)"
      by (simp add: upload_single_too_large)
    then show ?thesis by (simp add: post_ask_def)
  qed
  have client_fault: "status (reply (post_ask openai sub w)) = 400 \<and>
          provider_calls (post_ask openai sub w) = []"
    if big: "length (buffer f) > fileSize"
  proof -
    from assms big have "\<exists>err. upload_single sub = Inl err"
      by (simp add: upload_single_def fileFilter_def)
    then obtain err where "upload_single sub = Inl err" by blast
    then have "post_ask openai sub w =
        \<lparr>reply = error_middleware err, provider_calls = [], world = w\<rparr>"
      by (simp add: post_ask_def)
    then show ?thesis by (cases err) simp_all
  qed
  have not_for_size: "body (reply (post_ask openai sub w)) \<noteq>
            ErrorBody (upload_error_prefix @ ascii ''File too large'')"
    if small: "length (buffer f) \<le> fileSize"
  proof (cases "mimetype f = ascii ''text/markdown'' \<or> mimetype f = ascii ''text/plain''")
    case False
    with assms have "upload_single sub = Inl (Error fileFilter_message)"
      by (simp add: upload_single_unsupported)
    then show ?thesis by (simp add: post_ask_def messages_distinct)
  next
    case True
    with assms small have up: "upload_single sub = Inr (Some f)"
      by (simp add: upload_single_accepted)
    show ?thesis
    proof (cases "truthy (question sub)")
      case False
      with up show ?thesis by (simp add: post_ask_def ask_handler_falsy messages_distinct)
    next
      case True
      with up show ?thesis
        by (simp add: post_ask_def ask_handler_reply messages_distinct split: sum.splits)
    qed
  qed
  have "fileSize = 104857600" by (simp add: fileSize_def)
  with too_large client_fault not_for_size show ?thesis by blast
qed

theorem oversized_file_rejected_witness:
  "post_ask (stub_provider (ascii ''ok'')) (ask_about oversized_text) 0 =
     \<lparr>reply = \<lparr>status = 400, body = ErrorBody (upload_error_prefix @ ascii ''File too large'')\<rparr>,
      provider_calls = [], world = 0\<rparr> \<and>
   body (reply (post_ask (stub_provider (ascii ''ok'')) (ask_about markdown_file) 0)) \<noteq>
     ErrorBody (upload_error_prefix @ ascii ''File too large'')"
proof -
  have "post_ask (stub_provider (ascii ''ok'')) (ask_about oversized_text) 0 =
     \<lparr>reply = \<lparr>status = 400, body = ErrorBody (upload_error_prefix @ ascii ''File too large'')\<rparr>,
      provider_calls = [], world = 0\<rparr>"
    using oversized_file_rejected
      [where sub = "ask_about oversized_text" and f = oversized_text
         and openai = "stub_provider (ascii ''ok'')" and w = "0::nat"]
    by (simp add: ask_about_def oversized_text_def fileSize_def)
  moreover have "body (reply (post_ask (stub_provider (ascii ''ok'')) (ask_about markdown_file) 0)) \<noteq>
     ErrorBody (upload_error_prefix @ ascii ''File too large'')"
    using oversized_file_rejected
      [where sub = "ask_about markdown_file" and f = markdown_file
         and openai = "stub_provider (ascii ''ok'')" and w = "0::nat"]
    by (simp add: ask_about_def markdown_file_def fileSize_def)
  ultimately show ?thesis by blast
qed

text \<open>
  C6 promises status 200 for every response with non-empty content and the caller's model
  unless the field is absent. A submission that passes every check, sent with an empty
  model field to a provider that answers with two spaces, is called with the default model
  and answered with status 500: the content is judged after trimming, the model field by
  its truthiness.
\<close>

theorem provider_invocation_counterexample:
  "ascii ''  '' \<noteq> [] \<and>
   status (reply (post_ask (stub_provider (ascii ''  ''))
      \<lparr>question = Some (ascii ''What?''), markdownFile = Some markdown_file, model = Some []\<rparr> 0))
     = 500 \<and>
   map request_model (provider_calls (post_ask (stub_provider (ascii ''  ''))
      \<lparr>question = Some (ascii ''What?''), markdownFile = Some markdown_file, model = Some []\<rparr> 0))
     = [ascii ''gpt-3.5-turbo'']"
  by (simp add: post_ask_def upload_single_def fileFilter_def ask_handler_def ask_try_def
      or_else_def responseContent_def trim_def trimStart_def trimEnd_def isWhiteSpace_def
      default_model_def sample_defs)

text \<open>
  C6, as the code has it. For a submission that passes every check the provider is called
  exactly once, with the fixed system message followed by the user message composed from
  the decoded file and the question, and with the model of the form field when that is a
  non-empty string, the default \<open>gpt-3.5-turbo\<close> when the field is absent or empty.
  When the response's first choice has a text that is not empty after trimming, the reply
  is status 200 with the trimmed text as the answer.
\<close>

theorem provider_invocation:
  assumes "question sub = Some q" and "q \<noteq> []" and "markdownFile sub = Some f"
    and "mimetype f = ascii ''text/markdown'' \<or> mimetype f = ascii ''text/plain''"
    and "length (buffer f) \<le> fileSize"
  shows "provider_calls (post_ask openai sub w) =
           [\<lparr>request_model =
                (case model sub of None \<Rightarrow> default_model
                 | Some m \<Rightarrow> if m = [] then default_model else m),
             messages = [system_message,
                         user_message (finalPrompt (toString_utf8 (buffer f)) q)]\<rparr>]
       \<and> default_model = ascii ''gpt-3.5-turbo''
       \<and> (openai \<lparr>request_model =
                     (case model sub of None \<Rightarrow> default_model
                      | Some m \<Rightarrow> if m = [] then default_model else m),
                   messages = [system_message,
                               user_message (finalPrompt (toString_utf8 (buffer f)) q)]\<rparr> w
             = (Resolved (Completion (Some (Choice (Some (ChoiceMessage (Some s))) # rest))), w') \<and>
           trim s \<noteq> [] \<longrightarrow>
           reply (post_ask openai sub w) = \<lparr>status = 200, body = Answer (trim s)\<rparr>)"
proof -
  have calls: "provider_calls (post_ask openai sub w) =
           [\<lparr>request_model =
                (case model sub of None \<Rightarrow> default_model
                 | Some m \<Rightarrow> if m = [] then default_model else m),
             messages = [system_message,
                         user_message (finalPrompt (toString_utf8 (buffer f)) q)]\<rparr>]"
    using post_ask_calls [OF assms] by (simp add: or_else_cases)
  have ok: "reply (post_ask openai sub w) = \<lparr>status = 200, body = Answer (trim s)\<rparr>"
    if call: "openai \<lparr>request_model =
                     (case model sub of None \<Rightarrow> default_model
                      | Some m \<Rightarrow> if m = [] then default_model else m),
                   messages = [system_message,
                               user_message (finalPrompt (toString_utf8 (buffer f)) q)]\<rparr> w
             = (Resolved (Completion (Some (Choice (Some (ChoiceMessage (Some s))) # rest))), w')"
      and ne: "trim s \<noteq> []"
  proof -
    from call have call': "openai \<lparr>request_model = or_else (model sub) default_model,
                   messages = [system_message,
                               user_message (finalPrompt (toString_utf8 (buffer f)) q)]\<rparr> w
             = (Resolved (Completion (Some (Choice (Some (ChoiceMessage (Some s))) # rest))), w')"
      by (simp add: or_else_cases)
    have "reply (post_ask openai sub w) =
           (case responseContent
                   (Completion (Some (Choice (Some (ChoiceMessage (Some s))) # rest))) of
              None \<Rightarrow> \<lparr>status = 500,
                        body = ErrorBody (processing_error_prefix @ empty_response_message)\<rparr>
            | Some t \<Rightarrow>
                if t = [] then \<lparr>status = 500,
                        body = ErrorBody (processing_error_prefix @ empty_response_message)\<rparr>
                else \<lparr>status = 200, body = Answer t\<rparr>)"
      using assms call' by (rule post_ask_resolved)
    with ne show ?thesis by (simp add: responseContent_def)
  qed
  have "default_model = ascii ''gpt-3.5-turbo''" by (simp add: default_model_def)
  with calls ok show ?thesis by blast
qed

theorem provider_invocation_witness:
  "provider_calls (post_ask (stub_provider (ascii '' It does X. '')) (ask_about markdown_file) 0) =
     [\<lparr>request_model = ascii ''gpt-3.5-turbo'',
       messages = [system_message,
                   user_message (finalPrompt (toString_utf8 (buffer markdown_file))
                                   (ascii ''What does this do?''))]\<rparr>] \<and>
   reply (post_ask (stub_provider (ascii '' It does X. '')) (ask_about markdown_file) 0) =
     \<lparr>status = 200, body = Answer (trim (ascii '' It does X. ''))\<rparr>"
  using provider_invocation
      [where sub = "ask_about markdown_file" and q = "ascii ''What does this do?''"
         and f = markdown_file and openai = "stub_provider (ascii '' It does X. '')"
         and w = "0::nat" and w' = "Suc 0" and s = "ascii '' It does X. ''" and rest = "[]"]
  by (simp add: sample_defs trim_def trimStart_def trimEnd_def isWhiteSpace_def default_model_def)

text \<open>
  C10. A submission with an empty model field is handled exactly as the same submission
  without the field, whatever else it holds. For a submission that passes every check and
  has an empty model field, the provider is called once, with the model
  \<open>gpt-3.5-turbo\<close>, and the reply and the outside state are those that this call gives;
  with any non-empty model string, the call is made with that string as it is, and the
  reply and the outside state are those of that call.
\<close>

theorem empty_model_uses_default:
  assumes "question sub = Some q" and "q \<noteq> []" and "markdownFile sub = Some f"
    and "mimetype f = ascii ''text/markdown'' \<or> mimetype f = ascii ''text/plain''"
    and "length (buffer f) \<le> fileSize"
  shows "let sent = (\<lambda>m. \<lparr>request_model = m,
                          messages = [system_message,
                            user_message (finalPrompt (toString_utf8 (buffer f)) q)]\<rparr>);
             answered = (\<lambda>result.
               case result of
                 Rejected err \<Rightarrow>
                   \<lparr>status = 500, body = ErrorBody (processing_error_prefix @ message err)\<rparr>
               | Resolved c \<Rightarrow>
                   (case responseContent c of
                      None \<Rightarrow> \<lparr>status = 500,
                        body = ErrorBody (processing_error_prefix @ empty_response_message)\<rparr>
                    | Some t \<Rightarrow>
                        if t = [] then \<lparr>status = 500,
                          body = ErrorBody (processing_error_prefix @ empty_response_message)\<rparr>
                        else \<lparr>status = 200, body = Answer t\<rparr>))
         in post_ask any_openai (any_sub\<lparr>model := Some []\<rparr>) any_w =
              post_ask any_openai (any_sub\<lparr>model := None\<rparr>) any_w
          \<and> post_ask openai (sub\<lparr>model := Some []\<rparr>) w =
              \<lparr>reply = answered (fst (openai (sent (ascii ''gpt-3.5-turbo'')) w)),
               provider_calls = [sent (ascii ''gpt-3.5-turbo'')],
               world = snd (openai (sent (ascii ''gpt-3.5-turbo'')) w)\<rparr>
          \<and> (m \<noteq> [] \<longrightarrow>
              post_ask openai (sub\<lparr>model := Some m\<rparr>) w =
                \<lparr>reply = answered (fst (openai (sent m) w)),
                 provider_calls = [sent m],
                 world = snd (openai (sent m) w)\<rparr>)"
proof -
  have calls: "provider_calls (post_ask openai (sub\<lparr>model := mf\<rparr>) w) =
      [\<lparr>request_model = or_else mf default_model,
        messages = [system_message,
                    user_message (finalPrompt (toString_utf8 (buffer f)) q)]\<rparr>]" for mf
    using post_ask_calls [of "sub\<lparr>model := mf\<rparr>" q f openai w] assms by simp
  have outside: "world (post_ask openai (sub\<lparr>model := mf\<rparr>) w) =
      snd (openai \<lparr>request_model = or_else mf default_model,
             messages = [system_message,
                         user_message (finalPrompt (toString_utf8 (buffer f)) q)]\<rparr> w)" for mf
    using post_ask_world [of "sub\<lparr>model := mf\<rparr>" q f openai w] assms by simp
  have answer: "reply (post_ask openai (sub\<lparr>model := mf\<rparr>) w) =
      (case fst (openai \<lparr>request_model = or_else mf default_model,
                          messages = [system_message,
                            user_message (finalPrompt (toString_utf8 (buffer f)) q)]\<rparr> w) of
                 Rejected err \<Rightarrow>
                   \<lparr>status = 500, body = ErrorBody (processing_error_prefix @ message err)\<rparr>
               | Resolved c \<Rightarrow>
                   (case responseContent c of
                      None \<Rightarrow> \<lparr>status = 500,
                        body = ErrorBody (processing_error_prefix @ empty_response_message)\<rparr>
                    | Some t \<Rightarrow>
                        if t = [] then \<lparr>status = 500,
                          body = ErrorBody (processing_error_prefix @ empty_response_message)\<rparr>
                        else \<lparr>status = 200, body = Answer t\<rparr>))" for mf
    using post_ask_reply [of "sub\<lparr>model := mf\<rparr>" q f openai w] assms by simp
  have whole: "post_ask openai (sub\<lparr>model := mf\<rparr>) w =
      \<lparr>reply = reply (post_ask openai (sub\<lparr>model := mf\<rparr>) w),
       provider_calls = provider_calls (post_ask openai (sub\<lparr>model := mf\<rparr>) w),
       world = world (post_ask openai (sub\<lparr>model := mf\<rparr>) w)\<rparr>" for mf
    by simp
  have a: "post_ask openai (sub\<lparr>model := Some []\<rparr>) w =
      \<lparr>reply = (case fst (openai \<lparr>request_model = ascii ''gpt-3.5-turbo'',
                          messages = [system_message,
                            user_message (finalPrompt (toString_utf8 (buffer f)) q)]\<rparr> w) of
                 Rejected err \<Rightarrow>
                   \<lparr>status = 500, body = ErrorBody (processing_error_prefix @ message err)\<rparr>
               | Resolved c \<Rightarrow>
                   (case responseContent c of
                      None \<Rightarrow> \<lparr>status = 500,
                        body = ErrorBody (processing_error_prefix @ empty_response_message)\<rparr>
                    | Some t \<Rightarrow>
                        if t = [] then \<lparr>status = 500,
                          body = ErrorBody (processing_error_prefix @ empty_response_message)\<rparr>
                        else \<lparr>status = 200, body = Answer t\<rparr>)),
       provider_calls = [\<lparr>request_model = ascii ''gpt-3.5-turbo'',
                          messages = [system_message,
                            user_message (finalPrompt (toString_utf8 (buffer f)) q)]\<rparr>],
       world = snd (openai \<lparr>request_model = ascii ''gpt-3.5-turbo'',
                          messages = [system_message,
                            user_message (finalPrompt (toString_utf8 (buffer f)) q)]\<rparr> w)\<rparr>"
    using calls [of "Some []"] outside [of "Some []"] answer [of "Some []"]
    by (subst whole) (simp add: or_else_def default_model_def)
  have b: "post_ask openai (sub\<lparr>model := Some m\<rparr>) w =
      \<lparr>reply = (case fst (openai \<lparr>request_model = m,
                          messages = [system_message,
                            user_message (finalPrompt (toString_utf8 (buffer f)) q)]\<rparr> w) of
                 Rejected err \<Rightarrow>
                   \<lparr>status = 500, body = ErrorBody (processing_error_prefix @ message err)\<rparr>
               | Resolved c \<Rightarrow>
                   (case responseContent c of
                      None \<Rightarrow> \<lparr>status = 500,
                        body = ErrorBody (processing_error_prefix @ empty_response_message)\<rparr>
                    | Some t \<Rightarrow>
                        if t = [] then \<lparr>status = 500,
                          body = ErrorBody (processing_error_prefix @ empty_response_message)\<rparr>
                        else \<lparr>status = 200, body = Answer t\<rparr>)),
       provider_calls = [\<lparr>request_model = m,
                          messages = [system_message,
                            user_message (finalPrompt (toString_utf8 (buffer f)) q)]\<rparr>],
       world = snd (openai \<lparr>request_model = m,
                          messages = [system_message,
                            user_message (finalPrompt (toString_utf8 (buffer f)) q)]\<rparr> w)\<rparr>"
    if "m \<noteq> []"
    using that calls [of "Some m"] outside [of "Some m"] answer [of "Some m"]
    by (subst whole) (simp add: or_else_def)
  from a b post_ask_model_empty [of any_openai any_sub any_w] show ?thesis
    by (simp add: Let_def)
qed

theorem empty_model_uses_default_witness:
  "post_ask (stub_provider (ascii ''ok'')) ((ask_about markdown_file)\<lparr>model := Some []\<rparr>) 0 =
     \<lparr>reply = \<lparr>status = 200, body = Answer (ascii ''ok'')\<rparr>,
      provider_calls = [\<lparr>request_model = ascii ''gpt-3.5-turbo'',
         messages = [system_message,
           user_message (finalPrompt (toString_utf8 (buffer markdown_file))
                           (ascii ''What does this do?''))]\<rparr>],
      world = 1\<rparr> \<and>
   post_ask (stub_provider (ascii ''ok''))
       ((ask_about markdown_file)\<lparr>model := Some (ascii ''gpt-4o'')\<rparr>) 0 =
     \<lparr>reply = \<lparr>status = 200, body = Answer (ascii ''ok'')\<rparr>,
      provider_calls = [\<lparr>request_model = ascii ''gpt-4o'',
         messages = [system_message,
           user_message (finalPrompt (toString_utf8 (buffer markdown_file))
                           (ascii ''What does this do?''))]\<rparr>],
      world = 1\<rparr>"
proof -
  have hyps: "question (ask_about markdown_file) = Some (ascii ''What does this do?'')"
    "ascii ''What does this do?'' \<noteq> []"
    "markdownFile (ask_about markdown_file) = Some markdown_file"
    "mimetype markdown_file = ascii ''text/markdown'' \<or> mimetype markdown_file = ascii ''text/plain''"
    "length (buffer markdown_file) \<le> fileSize"
    by (simp_all add: ask_about_def markdown_file_def ascii_def fileSize_def)
  from empty_model_uses_default
      [OF hyps, where openai = "stub_provider (ascii ''ok'')" and w = "0::nat"
         and any_sub = "ask_about pdf_file" and any_openai = "stub_provider (ascii ''ok'')"
         and any_w = "0::nat" and m = "ascii ''gpt-4o''"]
  show ?thesis
    by (simp add: Let_def stub_provider_def responseContent_def ascii_def
        trim_def trimStart_def trimEnd_def isWhiteSpace_def)
qed

text \<open>
  C2. The claim is that the command-line tool sends the document between the delimiter
  lines followed by the literal question, as the HTTP handler does. The tool requires a
  question and describes it as the question to ask about the content, but its template
  has no place for it. Run on the document \<open># Title\<close> with the question
  \<open>What does this do?\<close>, it sends a user message in which the question does not
  occur, and the same one for any other question; the HTTP handler, on the same document
  and question, sends a message that ends with the question.
\<close>

theorem cli_prompt_omits_question:
  "map messages (fst (snd (processMarkdownAndAsk (Some (ascii ''sk-test'')) (Inr (buffer markdown_file))
       (stub_provider (ascii ''ok'')) None (ascii ''What does this do?'') default_model 0))) =
     [[system_message, user_message (cli_finalPrompt (ascii ''# Title''))]] \<and>
   \<not> sublist (ascii ''What does this do?'') (cli_finalPrompt (ascii ''# Title'')) \<and>
   map messages (provider_calls (post_ask (stub_provider (ascii ''ok'')) (ask_about markdown_file) 0)) =
     [[system_message,
       user_message (finalPrompt (ascii ''# Title'') (ascii ''What does this do?''))]] \<and>
   suffix (ascii ''What does this do?'' @ [0x0A])
     (finalPrompt (ascii ''# Title'') (ascii ''What does this do?'')) \<and>
   cli_finalPrompt (ascii ''# Title'') \<noteq>
     finalPrompt (ascii ''# Title'') (ascii ''What does this do?'') \<and>
   processMarkdownAndAsk (Some (ascii ''sk-test'')) (Inr (buffer markdown_file))
       (stub_provider (ascii ''ok'')) None (ascii ''Why?'') default_model 0 =
     processMarkdownAndAsk (Some (ascii ''sk-test'')) (Inr (buffer markdown_file))
       (stub_provider (ascii ''ok'')) None (ascii ''What does this do?'') default_model 0"
proof (intro conjI)
  have doc: "toString_utf8 (buffer markdown_file) = ascii ''# Title''"
    by (simp add: markdown_file_def decoder_defs ascii_def)
  have "map messages (fst (snd (processMarkdownAndAsk (Some (ascii ''sk-test'')) (Inr (buffer markdown_file))
       (stub_provider (ascii ''ok'')) None (ascii ''What does this do?'') default_model 0))) =
     [[system_message, user_message (cli_finalPrompt (toString_utf8 (buffer markdown_file)))]]"
    by (rule cli_messages) (simp add: ascii_def)
  then show "map messages (fst (snd (processMarkdownAndAsk (Some (ascii ''sk-test'')) (Inr (buffer markdown_file))
       (stub_provider (ascii ''ok'')) None (ascii ''What does this do?'') default_model 0))) =
     [[system_message, user_message (cli_finalPrompt (ascii ''# Title''))]]"
    by (simp only: doc)
  show "\<not> sublist (ascii ''What does this do?'') (cli_finalPrompt (ascii ''# Title''))"
    by (simp add: cli_finalPrompt_def start_marker_def end_marker_def ascii_def sublist_code(3))
  have "map messages (provider_calls (post_ask (stub_provider (ascii ''ok'')) (ask_about markdown_file) 0)) =
     [[system_message,
       user_message (finalPrompt (toString_utf8 (buffer markdown_file)) (ascii ''What does this do?''))]]"
    by (simp add: post_ask_calls [where q = "ascii ''What does this do?''" and f = markdown_file]
        ask_about_def markdown_file_def ascii_def fileSize_def)
  then show "map messages (provider_calls (post_ask (stub_provider (ascii ''ok'')) (ask_about markdown_file) 0)) =
     [[system_message,
       user_message (finalPrompt (ascii ''# Title'') (ascii ''What does this do?''))]]"
    by (simp only: doc)
  show "suffix (ascii ''What does this do?'' @ [0x0A])
     (finalPrompt (ascii ''# Title'') (ascii ''What does this do?''))"
    by (rule suffix_finalPrompt)
  show "cli_finalPrompt (ascii ''# Title'') \<noteq>
     finalPrompt (ascii ''# Title'') (ascii ''What does this do?'')"
    by (simp add: cli_finalPrompt_def finalPrompt_def)
  show "processMarkdownAndAsk (Some (ascii ''sk-test'')) (Inr (buffer markdown_file))
       (stub_provider (ascii ''ok'')) None (ascii ''Why?'') default_model 0 =
     processMarkdownAndAsk (Some (ascii ''sk-test'')) (Inr (buffer markdown_file))
       (stub_provider (ascii ''ok'')) None (ascii ''What does this do?'') default_model 0"
    by (simp add: processMarkdownAndAsk_def)
qed

text \<open>
  C8 says that a buffer that is not valid UTF-8 makes decoding fail. \<open>toString\<close> never
  fails: for the file with the bytes 0x68, 0xFF the prompt is composed from the text
  \<open>h\<close> followed by U+FFFD, the provider is called with it and the reply is status 200.
\<close>

theorem invalid_utf8_counterexample:
  "valid_utf8 (buffer invalid_utf8_file) = False \<and>
   reply (post_ask (stub_provider (ascii ''ok'')) (ask_about invalid_utf8_file) 0) =
     \<lparr>status = 200, body = Answer (ascii ''ok'')\<rparr> \<and>
   map (map content \<circ> messages)
     (provider_calls (post_ask (stub_provider (ascii ''ok'')) (ask_about invalid_utf8_file) 0)) =
     [[content system_message, finalPrompt [0x68, 0xFFFD] (ascii ''What does this do?'')]]"
proof (intro conjI)
  show "valid_utf8 (buffer invalid_utf8_file) = False"
    by (simp add: invalid_utf8_file_def decoder_defs)
  show "reply (post_ask (stub_provider (ascii ''ok'')) (ask_about invalid_utf8_file) 0) =
     \<lparr>status = 200, body = Answer (ascii ''ok'')\<rparr>"
    by (simp add: post_ask_def upload_single_def fileFilter_def ask_handler_def ask_try_def
      or_else_def responseContent_def trim_def trimStart_def trimEnd_def isWhiteSpace_def
      invalid_utf8_file_def sample_defs)
  have "toString_utf8 (buffer invalid_utf8_file) = [0x68, 0xFFFD]"
    by (simp add: invalid_utf8_file_def decoder_defs)
  then show "map (map content \<circ> messages)
     (provider_calls (post_ask (stub_provider (ascii ''ok'')) (ask_about invalid_utf8_file) 0)) =
     [[content system_message, finalPrompt [0x68, 0xFFFD] (ascii ''What does this do?'')]]"
    by (simp add: post_ask_calls [where q = "ascii ''What does this do?''" and f = invalid_utf8_file]
        ask_about_def invalid_utf8_file_def ascii_def fileSize_def user_message_def)
qed

text \<open>
  C8, as the code has it. The handler has no path for a decoding failure. For a submission
  that passes every check, whether or not the buffer is valid UTF-8, the provider is
  called once with the prompt composed from the text that \<open>toString\<close> yields, and the
  reply and the outside state are what follows from that call: status 500 when the call
  fails or the answer is empty, status 200 otherwise. Each error the decoder signals on
  the buffer is a U+FFFD in that text: the text holds at least as many U+FFFD as there are
  errors, so at least one when the buffer is not valid.
\<close>

theorem decoding_never_fails:
  assumes "question sub = Some q" and "q \<noteq> []" and "markdownFile sub = Some f"
    and "mimetype f = ascii ''text/markdown'' \<or> mimetype f = ascii ''text/plain''"
    and "length (buffer f) \<le> fileSize"
  shows "let request = \<lparr>request_model = or_else (model sub) default_model,
                         messages = [system_message,
                           user_message (finalPrompt (toString_utf8 (buffer f)) q)]\<rparr>
         in provider_calls (post_ask openai sub w) = [request]
          \<and> world (post_ask openai sub w) = snd (openai request w)
          \<and> reply (post_ask openai sub w) =
              (case fst (openai request w) of
                 Rejected err \<Rightarrow>
                   \<lparr>status = 500, body = ErrorBody (processing_error_prefix @ message err)\<rparr>
               | Resolved c \<Rightarrow>
                   (case responseContent c of
                      None \<Rightarrow> \<lparr>status = 500,
                        body = ErrorBody (processing_error_prefix @ empty_response_message)\<rparr>
                    | Some t \<Rightarrow>
                        if t = [] then \<lparr>status = 500,
                          body = ErrorBody (processing_error_prefix @ empty_response_message)\<rparr>
                        else \<lparr>status = 200, body = Answer t\<rparr>))
          \<and> count_list (utf8_decode (buffer f)) DecodeError
                \<le> count_list (toString_utf8 (buffer f)) 0xFFFD
          \<and> (\<not> valid_utf8 (buffer f) \<longrightarrow> 0xFFFD \<in> set (toString_utf8 (buffer f)))"
  using post_ask_calls [OF assms, of openai w] post_ask_world [OF assms, of openai w]
    post_ask_reply [OF assms, of openai w] count_replacements [of "utf8_decode (buffer f)"]
    decode_error_replaced [of "buffer f"]
  by (simp add: Let_def toString_utf8_def valid_utf8_def)

theorem decoding_never_fails_witness:
  "provider_calls (post_ask (stub_provider (ascii ''ok'')) (ask_about invalid_utf8_file) 0) =
     [\<lparr>request_model = default_model,
       messages = [system_message,
                   user_message (finalPrompt [0x68, 0xFFFD] (ascii ''What does this do?''))]\<rparr>] \<and>
   world (post_ask (stub_provider (ascii ''ok'')) (ask_about invalid_utf8_file) 0) = 1 \<and>
   reply (post_ask (stub_provider (ascii ''ok'')) (ask_about invalid_utf8_file) 0) =
     \<lparr>status = 200, body = Answer (ascii ''ok'')\<rparr> \<and>
   count_list (utf8_decode (buffer invalid_utf8_file)) DecodeError = 1 \<and>
   count_list (toString_utf8 (buffer invalid_utf8_file)) 0xFFFD = 1"
proof -
  have hyps: "question (ask_about invalid_utf8_file) = Some (ascii ''What does this do?'')"
    "ascii ''What does this do?'' \<noteq> []"
    "markdownFile (ask_about invalid_utf8_file) = Some invalid_utf8_file"
    "mimetype invalid_utf8_file = ascii ''text/markdown'' \<or>
     mimetype invalid_utf8_file = ascii ''text/plain''"
    "length (buffer invalid_utf8_file) \<le> fileSize"
    by (simp_all add: ask_about_def invalid_utf8_file_def ascii_def fileSize_def)
  have m: "or_else (model (ask_about invalid_utf8_file)) default_model = default_model"
    by (simp add: ask_about_def or_else_def)
  have d: "toString_utf8 (buffer invalid_utf8_file) = [0x68, 0xFFFD]"
    "utf8_decode (buffer invalid_utf8_file) = [CodePoint 0x68, DecodeError]"
    by (simp_all add: invalid_utf8_file_def decoder_defs)
  from decoding_never_fails [OF hyps, where openai = "stub_provider (ascii ''ok'')" and w = "0::nat"]
  show ?thesis
    by (simp add: Let_def m d stub_provider_def responseContent_def ascii_def
        trim_def trimStart_def trimEnd_def isWhiteSpace_def)
qed

text \<open>
  C9. Two submissions that pass every check and agree on the bytes of the document and on
  the question make the handler send the same texts to the provider, the user message
  being the template applied to the decoded bytes and the question. Nothing else has a
  say: the two may differ in file name, declared media type and model, and be handled with
  different providers in different states of the outside.
\<close>

theorem prompt_is_deterministic:
  assumes "question sub_a = Some q" and "q \<noteq> []" and "markdownFile sub_a = Some f_a"
    and "mimetype f_a = ascii ''text/markdown'' \<or> mimetype f_a = ascii ''text/plain''"
    and "length (buffer f_a) \<le> fileSize"
    and "question sub_b = Some q" and "markdownFile sub_b = Some f_b"
    and "mimetype f_b = ascii ''text/markdown'' \<or> mimetype f_b = ascii ''text/plain''"
    and "buffer f_b = buffer f_a"
  shows "map (map content \<circ> messages) (provider_calls (post_ask openai_a sub_a w_a)) =
           [[content system_message, finalPrompt (toString_utf8 (buffer f_a)) q]]
       \<and> map (map content \<circ> messages) (provider_calls (post_ask openai_b sub_b w_b)) =
           map (map content \<circ> messages) (provider_calls (post_ask openai_a sub_a w_a))"
proof -
  have a: "map (map content \<circ> messages) (provider_calls (post_ask openai_a sub_a w_a)) =
           [[content system_message, finalPrompt (toString_utf8 (buffer f_a)) q]]"
    by (simp add: post_ask_calls [OF assms(1-5)] user_message_def)
  from assms(5,9) have "length (buffer f_b) \<le> fileSize" by simp
  then have "map (map content \<circ> messages) (provider_calls (post_ask openai_b sub_b w_b)) =
           [[content system_message, finalPrompt (toString_utf8 (buffer f_b)) q]]"
    by (simp add: post_ask_calls [OF assms(6) assms(2) assms(7) assms(8)] user_message_def)
  with a assms(9) show ?thesis by simp
qed

theorem prompt_is_deterministic_witness:
  "map (map content \<circ> messages)
     (provider_calls (post_ask (stub_provider (ascii ''no''))
        \<lparr>question = Some (ascii ''What does this do?''), markdownFile = Some renamed_file,
         model = Some (ascii ''gpt-4o'')\<rparr> 7)) =
   map (map content \<circ> messages)
     (provider_calls (post_ask (stub_provider (ascii ''ok'')) (ask_about markdown_file) 0))"
  using prompt_is_deterministic
    [where sub_a = "ask_about markdown_file" and q = "ascii ''What does this do?''"
       and f_a = markdown_file and f_b = renamed_file
       and sub_b = "\<lparr>question = Some (ascii ''What does this do?''),
                      markdownFile = Some renamed_file, model = Some (ascii ''gpt-4o'')\<rparr>"
       and openai_a = "stub_provider (ascii ''ok'')" and w_a = "0::nat"
       and openai_b = "stub_provider (ascii ''no'')" and w_b = "7::nat"]
  by (simp add: ask_about_def markdown_file_def renamed_file_def ascii_def fileSize_def)

end
